theory Spec2Isabelle
  imports Main
begin

section \<open>Messages\<close>

text \<open>
  msgs::ServerControl, the message of the topic /gazebo/server/control. Every field is an
  optional protobuf field: \<open>has_x()\<close> is \<open>x m \<noteq> None\<close>.
\<close>

record ServerControl =
  save_world_name :: "string option"
  save_filename :: "string option"
  new_world :: "bool option"
  open_filename :: "string option"

text \<open>msgs::WorldModify, the message of the topic /gazebo/world/modify.\<close>

record WorldModify =
  world_name :: "string option"
  remove :: "bool option"
  create :: "bool option"

section \<open>The collaborators of the server\<close>

text \<open>
  The world element of a parsed description, and the document \<open>sdf::readFile\<close> fills.
  \<open>world_element\<close> is what \<open>sdf->root->GetElement("world")\<close> returns: an element
  pointer, which may be null (\<open>Server::LoadImpl\<close> tests it).
\<close>

record Element =
  e_name :: string
  e_models :: "string list"

record SDF =
  world_element :: "Element option"

text \<open>
  A live world of the physics subsystem: its identity (the object a WorldPtr points to),
  its name, its model set and whether its physics thread runs.
\<close>

record World =
  wid :: nat
  wname :: string
  wmodels :: "string list"
  wrunning :: bool

text \<open>
  Every call that leaves Server.cc is recorded, in program order, as an event. The
  accesses to the command queue and to its mutex are events too.
\<close>

datatype event =
    MutexLock
  | MutexUnlock
  | QueuePush ServerControl
  | QueueRead
  | QueueClear
  | Gzerr string
  | Publish WorldModify
  | StopWorlds
  | RemoveWorlds
  | RemoveSensors
  | ClearBuffers
  | CreateWorld nat
  | LoadWorld nat
  | InitWorld nat
  | RunWorld nat
  | SaveWorld nat string
  | GazeboInit
  | SensorsInit
  | InitWorlds
  | SensorsRunOnce
  | RunWorlds
  | MSleep
  | SensorsStop
  | GazeboStop
  | MasterStop

text \<open>
  The state the server's functions read and write: the static flag \<open>Server::stop\<close>, the
  list \<open>controlMsgs\<close>, the worlds registered with the physics subsystem (with the next
  unused world identity), and the events so far.
\<close>

record Server =
  stop :: bool
  controlMsgs :: "ServerControl list"
  worlds :: "World list"
  fresh :: nat
  trace :: "event list"

text \<open>
  How \<open>physics::get_world\<close> ends for a name that no registered world has. Its code is
  not in src/ and the spec does not say: the result type WorldPtr can be null, and the
  function can throw.
\<close>

datatype unknown_world = ReturnsNull | Throws

text \<open>
  What the functions read from outside the process: whether \<open>sdf::init\<close> succeeds, what
  \<open>sdf::readFile\<close> makes of a file name (None: it returns false), whether
  \<open>physics::load_world\<close> throws on an element (\<open>Server::LoadImpl\<close> catches
  common::Exception around that call), and how \<open>physics::get_world\<close> ends for an
  unknown name.
\<close>

record Env =
  sdf_init :: bool
  readFile :: "string \<Rightarrow> SDF option"
  load_throws :: "Element \<Rightarrow> bool"
  get_world_unknown :: unknown_world

text \<open>
  A call either returns, or it ends the thread: a null pointer is dereferenced, or an
  exception leaves the function (nothing in the command path catches one). The state at
  that moment is kept.
\<close>

datatype fault = NullDereference | UncaughtException

datatype 'a result = is_Ok: Ok 'a | Raised fault Server

fun the_state :: "Server result \<Rightarrow> Server" where
  "the_state (Ok s) = s"
| "the_state (Raised f s) = s"

definition emit :: "event \<Rightarrow> Server \<Rightarrow> Server" where
  "emit e s = s\<lparr>trace := trace s @ [e]\<rparr>"

definition gzerr :: "string \<Rightarrow> Server \<Rightarrow> Server" where
  "gzerr msg s = emit (Gzerr msg) s"

text \<open>\<open>this->worldModPub->Publish(worldMsg)\<close>\<close>

definition worldModPub_Publish :: "WorldModify \<Rightarrow> Server \<Rightarrow> Server" where
  "worldModPub_Publish m s = emit (Publish m) s"

text \<open>The messages published on the world-modify topic, oldest first.\<close>

fun published :: "event list \<Rightarrow> WorldModify list" where
  "published [] = []"
| "published (Publish m # es) = m # published es"
| "published (e # es) = published es"

text \<open>
  Modelled from the spec: physics::stop_worlds, which is not in src/. "Stop all running
  world physics threads".
\<close>

definition stop_worlds :: "Server \<Rightarrow> Server" where
  "stop_worlds s = emit StopWorlds (s\<lparr>worlds := map (\<lambda>w. w\<lparr>wrunning := False\<rparr>) (worlds s)\<rparr>)"

text \<open>
  Modelled from the spec: physics::remove_worlds, which is not in src/. "remove the
  current world instance": reload replaces, never coexists with, the previous one.
\<close>

definition remove_worlds :: "Server \<Rightarrow> Server" where
  "remove_worlds s = emit RemoveWorlds (s\<lparr>worlds := []\<rparr>)"

text \<open>
  Modelled from the spec: sensors::remove_sensors and transport::clear_buffers, which are
  not in src/. Their state is outside the server; the calls are recorded.
\<close>

definition remove_sensors :: "Server \<Rightarrow> Server" where
  "remove_sensors s = emit RemoveSensors s"

definition clear_buffers :: "Server \<Rightarrow> Server" where
  "clear_buffers s = emit ClearBuffers s"

text \<open>
  Modelled from the spec: physics::create_world, which is not in src/. A new world
  instance, registered with the physics subsystem, not yet loaded and not running. The
  handle returned is the identity of the instance.
\<close>

definition create_world :: "Server \<Rightarrow> nat \<times> Server" where
  "create_world s =
     (fresh s,
      emit (CreateWorld (fresh s))
        (s\<lparr>worlds := worlds s @ [\<lparr>wid = fresh s, wname = [], wmodels = [], wrunning = False\<rparr>],
           fresh := Suc (fresh s)\<rparr>))"

text \<open>
  Modelled from the spec: physics::load_world, which is not in src/. "Construct the new
  world from the validated description": the world takes the name and the models of the
  element. It dereferences the element it is given, and it throws when the physics
  subsystem rejects the description (LoadError).
\<close>

definition load_world :: "Env \<Rightarrow> nat \<Rightarrow> Element option \<Rightarrow> Server \<Rightarrow> Server result" where
  "load_world env w elem s =
     (case elem of
        None \<Rightarrow> Raised NullDereference s
      | Some e \<Rightarrow>
          if load_throws env e then Raised UncaughtException s
          else Ok (emit (LoadWorld w)
                 (s\<lparr>worlds := map (\<lambda>x. if wid x = w
                                         then x\<lparr>wname := e_name e, wmodels := e_models e\<rparr>
                                         else x) (worlds s)\<rparr>)))"

text \<open>
  Modelled from the spec: physics::init_world and physics::run_world, which are not in
  src/. "initialize it, and start its physics thread".
\<close>

definition init_world :: "nat \<Rightarrow> Server \<Rightarrow> Server" where
  "init_world w s = emit (InitWorld w) s"

definition run_world :: "nat \<Rightarrow> Server \<Rightarrow> Server" where
  "run_world w s =
     emit (RunWorld w)
       (s\<lparr>worlds := map (\<lambda>x. if wid x = w then x\<lparr>wrunning := True\<rparr> else x) (worlds s)\<rparr>)"

text \<open>
  Modelled from the spec: physics::run_worlds, which is not in src/. "all world physics
  threads are started".
\<close>

definition run_worlds :: "Server \<Rightarrow> Server" where
  "run_worlds s = emit RunWorlds (s\<lparr>worlds := map (\<lambda>w. w\<lparr>wrunning := True\<rparr>) (worlds s)\<rparr>)"

text \<open>
  Modelled from the spec: physics::get_world, which is not in src/. "look up the named
  world; if found ...": the handle of the first registered world of that name. When no
  registered world has the name, the call ends as the environment says: it returns the
  null handle, or it throws.
\<close>

definition get_world :: "Env \<Rightarrow> string \<Rightarrow> Server \<Rightarrow> World option result" where
  "get_world env n s =
     (case find (\<lambda>w. wname w = n) (worlds s) of
        Some w \<Rightarrow> Ok (Some w)
      | None \<Rightarrow>
          (case get_world_unknown env of
             ReturnsNull \<Rightarrow> Ok None
           | Throws \<Rightarrow> Raised UncaughtException s))"

text \<open>
  Modelled from the spec: World::Save, which is not in src/. "serialize it to that
  path": the file is outside the server; the call is recorded.
\<close>

definition World_Save :: "World \<Rightarrow> string \<Rightarrow> Server \<Rightarrow> Server" where
  "World_Save w f s = emit (SaveWorld (wid w) f) s"

section \<open>Server.cc\<close>

text \<open>The static member \<open>Server::stop\<close> starts true; nothing is queued or loaded yet.\<close>

definition Server_new :: Server where
  "Server_new = \<lparr>stop = True, controlMsgs = [], worlds = [], fresh = 0, trace = []\<rparr>"

definition Init :: "Server \<Rightarrow> Server" where
  "Init s = (emit InitWorlds (emit SensorsInit (emit GazeboInit s)))\<lparr>stop := False\<rparr>"

definition SigInt :: "Server \<Rightarrow> Server" where
  "SigInt s = s\<lparr>stop := True\<rparr>"

definition Stop :: "Server \<Rightarrow> Server" where
  "Stop s = s\<lparr>stop := True\<rparr>"

text \<open>
  \<open>Server::OnControl\<close>: the scoped lock is taken, the message is appended to the back
  of the list, and the lock is released at the end of the scope.
\<close>

definition OnControl :: "ServerControl \<Rightarrow> Server \<Rightarrow> Server" where
  "OnControl m s =
     (let s1 = emit MutexLock s;
          s2 = emit (QueuePush m) (s1\<lparr>controlMsgs := controlMsgs s1 @ [m]\<rparr>)
      in emit MutexUnlock s2)"

text \<open>
  \<open>Server::OpenWorld\<close>. The two early returns come first; after them nothing is
  checked: the element goes to \<open>load_world\<close> as \<open>GetElement\<close> returned it, and an
  exception of \<open>load_world\<close> leaves the function.
\<close>

definition OpenWorld :: "Env \<Rightarrow> string \<Rightarrow> Server \<Rightarrow> (bool \<times> Server) result" where
  "OpenWorld env filename s =
     (if \<not> sdf_init env then
        Ok (False, gzerr ''Unable to initialize sdf\<newline>'' s)
      else
        (case readFile env filename of
           None \<Rightarrow> Ok (False, gzerr (''Unable to read sdf file['' @ filename @ '']\<newline>'') s)
         | Some sdf \<Rightarrow>
             (let s1 = worldModPub_Publish
                         \<lparr>world_name = Some ''default'', remove = Some True, create = None\<rparr> s;
                  s2 = stop_worlds s1;
                  s3 = remove_worlds s2;
                  s4 = remove_sensors s3;
                  s5 = clear_buffers s4;
                  worldElem = world_element sdf;
                  (world, s6) = create_world s5
              in (case load_world env world worldElem s6 of
                    Raised f t \<Rightarrow> Raised f t
                  | Ok s7 \<Rightarrow>
                      (let s8 = init_world world s7;
                           s9 = run_world world s8;
                           s10 = worldModPub_Publish
                                   \<lparr>world_name = Some ''default'', remove = Some False,
                                    create = Some True\<rparr> s9
                       in Ok (True, s10))))))"

text \<open>
  The body of the loop of \<open>Server::ProcessControlMsgs\<close>, for the message the
  iterator points to. The world is looked up before the file name is tested, and an
  exception of \<open>get_world\<close> leaves the function. The handle \<open>get_world\<close> returns is
  used as it is: \<open>world->Save\<close> on the null handle is a null dereference. The value
  \<open>OpenWorld\<close> returns is dropped.
\<close>

definition discard_value :: "(bool \<times> Server) result \<Rightarrow> Server result" where
  "discard_value r = (case r of Raised f t \<Rightarrow> Raised f t | Ok (b, t) \<Rightarrow> Ok t)"

definition control_body :: "Env \<Rightarrow> ServerControl \<Rightarrow> Server \<Rightarrow> Server result" where
  "control_body env m s =
     (case save_world_name m of
        Some n \<Rightarrow>
          (case get_world env n s of
             Raised fl t \<Rightarrow> Raised fl t
           | Ok world \<Rightarrow>
               (case save_filename m of
                  Some f \<Rightarrow>
                    (case world of
                       None \<Rightarrow> Raised NullDereference s
                     | Some w \<Rightarrow> Ok (World_Save w f s))
                | None \<Rightarrow> Ok (gzerr ''No filename specified.\<newline>'' s)))
      | None \<Rightarrow>
          if new_world m = Some True then
            discard_value (OpenWorld env ''worlds/empty.world'' s)
          else
            (case open_filename m of
               Some f \<Rightarrow> discard_value (OpenWorld env f s)
             | None \<Rightarrow> Ok s))"

lemma OpenWorld_controlMsgs:
  "OpenWorld env f s = Ok (r, t) \<Longrightarrow> controlMsgs t = controlMsgs s"
  by (auto simp: OpenWorld_def gzerr_def emit_def worldModPub_Publish_def stop_worlds_def
        remove_worlds_def remove_sensors_def clear_buffers_def create_world_def
        load_world_def init_world_def run_world_def Let_def
      split: if_splits option.splits result.splits)

lemma control_body_controlMsgs:
  "control_body env m s = Ok t \<Longrightarrow> controlMsgs t = controlMsgs s"
  by (auto simp: control_body_def discard_value_def gzerr_def emit_def World_Save_def Let_def
      dest: OpenWorld_controlMsgs
      split: if_splits option.splits result.splits prod.splits)

text \<open>
  The loop of \<open>Server::ProcessControlMsgs\<close>: the iterator is the position \<open>i\<close> in
  \<open>controlMsgs\<close>, from \<open>begin()\<close> to \<open>end()\<close>; each round reads the message at the
  iterator and runs the body on it. A fault in the body leaves the loop.
\<close>

function control_loop :: "Env \<Rightarrow> nat \<Rightarrow> Server \<Rightarrow> Server result" where
  "control_loop env i s =
     (if i < length (controlMsgs s) then
        (case control_body env (controlMsgs s ! i) (emit QueueRead s) of
           Raised f t \<Rightarrow> Raised f t
         | Ok t \<Rightarrow> control_loop env (Suc i) t)
      else Ok s)"
  by pat_completeness auto
termination
proof (relation "measure (\<lambda>(env, i, s). length (controlMsgs s) - i)")
  show "wf (measure (\<lambda>(env, i, s). length (controlMsgs s) - i))"
    by simp
next
  fix env :: Env and i :: nat and s t :: Server
  assume lt: "i < length (controlMsgs s)"
    and ok: "control_body env (controlMsgs s ! i) (emit QueueRead s) = Ok t"
  from control_body_controlMsgs [OF ok] have "controlMsgs t = controlMsgs s"
    by (simp add: emit_def)
  with lt show "((env, Suc i, t), (env, i, s)) \<in> measure (\<lambda>(env, i, s). length (controlMsgs s) - i)"
    by simp
qed

declare control_loop.simps [simp del]

text \<open>
  \<open>Server::ProcessControlMsgs\<close>: the loop over the list, then \<open>controlMsgs.clear()\<close>.
  No lock is taken anywhere in the function.
\<close>

definition ProcessControlMsgs :: "Env \<Rightarrow> Server \<Rightarrow> Server result" where
  "ProcessControlMsgs env s =
     (case control_loop env 0 s of
        Raised f t \<Rightarrow> Raised f t
      | Ok t \<Rightarrow> Ok (emit QueueClear (t\<lparr>controlMsgs := []\<rparr>)))"

text \<open>
  What the other threads do while the loop thread sleeps in one round: the messages the
  transport callback thread delivers, and whether SIGINT arrives.
\<close>

record Tick =
  arrivals :: "ServerControl list"
  sigint :: bool

text \<open>
  Modelled from the spec: sensors::run_once, sensors::stop, gazebo::stop and
  Master::Stop, which are not in src/. Their state is outside the server; the calls are
  recorded.
\<close>

definition sensors_run_once :: "Server \<Rightarrow> Server" where
  "sensors_run_once s = emit SensorsRunOnce s"

definition sensors_stop :: "Server \<Rightarrow> Server" where
  "sensors_stop s = emit SensorsStop s"

definition gazebo_stop :: "Server \<Rightarrow> Server" where
  "gazebo_stop s = emit GazeboStop s"

definition master_Stop :: "Server \<Rightarrow> Server" where
  "master_Stop s = emit MasterStop s"

text \<open>
  \<open>common::Time::MSleep(1)\<close>: the loop thread sleeps, and the other threads run: the
  callbacks \<open>OnControl\<close> of the tick's messages, in order, and the signal handler.
\<close>

definition Time_MSleep :: "Tick \<Rightarrow> Server \<Rightarrow> Server" where
  "Time_MSleep t s =
     (let s1 = emit MSleep s;
          s2 = foldl (\<lambda>u m. OnControl m u) s1 (arrivals t)
      in if sigint t then SigInt s2 else s2)"

text \<open>
  The loop \<open>while (!this->stop)\<close> of \<open>Server::Run\<close>, one round for each tick. The flag
  is set only from outside the loop, so a schedule that ends while the flag is still
  false leaves the loop running: the value is None.
\<close>

fun steady_loop :: "Env \<Rightarrow> Tick list \<Rightarrow> Server \<Rightarrow> Server result option" where
  "steady_loop env [] s = (if stop s then Some (Ok s) else None)"
| "steady_loop env (t # ts) s =
     (if stop s then Some (Ok s)
      else
        case ProcessControlMsgs env s of
          Raised f u \<Rightarrow> Some (Raised f u)
        | Ok s1 \<Rightarrow> steady_loop env ts (Time_MSleep t (sensors_run_once s1)))"

text \<open>\<open>Server::Run\<close>\<close>

definition Run :: "Env \<Rightarrow> Tick list \<Rightarrow> Server \<Rightarrow> Server result option" where
  "Run env ts s =
     (if stop s then Some (Ok s)
      else
        let s1 = sensors_run_once s;
            s2 = run_worlds s1
        in case steady_loop env ts s2 of
             None \<Rightarrow> None
           | Some (Raised f u) \<Rightarrow> Some (Raised f u)
           | Some (Ok s3) \<Rightarrow>
               Some (Ok (master_Stop (gazebo_stop (sensors_stop (stop_worlds s3))))))"

section \<open>Reference notions and examples\<close>

text \<open>
  The commands of a batch run in arrival order: the first of the list first, each on the
  state the one before it left, until one of them faults.
\<close>

fun in_arrival_order :: "Env \<Rightarrow> ServerControl list \<Rightarrow> Server \<Rightarrow> Server result" where
  "in_arrival_order env [] s = Ok s"
| "in_arrival_order env (m # ms) s =
     (case control_body env m (emit QueueRead s) of
        Raised f t \<Rightarrow> Raised f t
      | Ok t \<Rightarrow> in_arrival_order env ms t)"

text \<open>
  Every access to the command queue happens while the mutex is held: \<open>held\<close> is whether
  it is held before the first event.
\<close>

fun guarded :: "bool \<Rightarrow> event list \<Rightarrow> bool" where
  "guarded held [] = True"
| "guarded held (MutexLock # es) = guarded True es"
| "guarded held (MutexUnlock # es) = guarded False es"
| "guarded held (QueuePush m # es) = (held \<and> guarded held es)"
| "guarded held (QueueRead # es) = (held \<and> guarded held es)"
| "guarded held (QueueClear # es) = (held \<and> guarded held es)"
| "guarded held (e # es) = guarded held es"

text \<open>
  An environment for the examples: worlds/empty.world holds a world named default,
  worlds/other.world a world named other, worlds/rejected.world parses but the physics
  subsystem rejects it, and no other file can be read. The lookup of an unknown world
  throws.
\<close>

definition empty_world :: SDF where
  "empty_world = \<lparr>world_element = Some \<lparr>e_name = ''default'', e_models = [''ground_plane'']\<rparr>\<rparr>"

definition rejected_world :: SDF where
  "rejected_world = \<lparr>world_element = Some \<lparr>e_name = ''default'', e_models = [''broken'']\<rparr>\<rparr>"

definition other_world :: SDF where
  "other_world = \<lparr>world_element = Some \<lparr>e_name = ''other'', e_models = [''ground_plane'']\<rparr>\<rparr>"

definition demo_env :: Env where
  "demo_env =
     \<lparr>sdf_init = True,
      readFile = (\<lambda>f. if f = ''worlds/empty.world'' then Some empty_world
                      else if f = ''worlds/rejected.world'' then Some rejected_world
                      else if f = ''worlds/other.world'' then Some other_world
                      else None),
      load_throws = (\<lambda>e. e_models e = [''broken'']),
      get_world_unknown = Throws\<rparr>"



text \<open>A server that runs one world, named default, with one model.\<close>

definition demo_server :: Server where
  "demo_server =
     \<lparr>stop = False, controlMsgs = [],
      worlds = [\<lparr>wid = 0, wname = ''default'', wmodels = [''box''], wrunning = True\<rparr>],
      fresh = 1, trace = []\<rparr>"

text \<open>Messages for the examples.\<close>

definition save_without_filename :: ServerControl where
  "save_without_filename =
     \<lparr>save_world_name = Some ''default'', save_filename = None, new_world = None,
      open_filename = None\<rparr>"



definition empty_msg :: ServerControl where
  "empty_msg =
     \<lparr>save_world_name = None, save_filename = None, new_world = None,
      open_filename = None\<rparr>"

definition new_world_msg :: ServerControl where
  "new_world_msg =
     \<lparr>save_world_name = None, save_filename = None, new_world = Some True,
      open_filename = None\<rparr>"

definition all_fields_msg :: ServerControl where
  "all_fields_msg =
     \<lparr>save_world_name = Some ''default'', save_filename = Some ''/tmp/out.world'',
      new_world = Some True, open_filename = Some ''worlds/empty.world''\<rparr>"

definition open_msg :: "string \<Rightarrow> ServerControl" where
  "open_msg f =
     \<lparr>save_world_name = None, save_filename = None, new_world = None,
      open_filename = Some f\<rparr>"

section \<open>Properties\<close>

lemma published_append: "published (xs @ ys) = published xs @ published ys"
  by (induction xs rule: published.induct) simp_all

text \<open>
  C1. When the replacement source fails to parse (\<open>sdf::init\<close> or \<open>sdf::readFile\<close>
  returns false), \<open>OpenWorld\<close> returns false, publishes nothing on the world-modify
  topic and leaves the worlds, the stop flag and the command queue as they were: its
  only effect is one line of the error log.
\<close>

theorem OpenWorld_parse_failure:
  assumes "\<not> sdf_init env \<or> readFile env filename = None"
  shows "\<exists>s' msg. OpenWorld env filename s = Ok (False, s')
           \<and> s' = s\<lparr>trace := trace s @ [Gzerr msg]\<rparr>
           \<and> published (trace s') = published (trace s)
           \<and> worlds s' = worlds s"
  using assms
  by (auto simp: OpenWorld_def gzerr_def emit_def published_append split: option.splits)

theorem OpenWorld_parse_failure_witness:
  "readFile demo_env ''missing.world'' = None
   \<and> (\<exists>s' msg. OpenWorld demo_env ''missing.world'' demo_server = Ok (False, s')
           \<and> s' = demo_server\<lparr>trace := trace demo_server @ [Gzerr msg]\<rparr>
           \<and> published (trace s') = published (trace demo_server)
           \<and> worlds s' = worlds demo_server)
   \<and> \<not> sdf_init (demo_env\<lparr>sdf_init := False\<rparr>)
   \<and> (\<exists>s' msg. OpenWorld (demo_env\<lparr>sdf_init := False\<rparr>) ''worlds/empty.world'' demo_server
             = Ok (False, s')
           \<and> s' = demo_server\<lparr>trace := trace demo_server @ [Gzerr msg]\<rparr>
           \<and> published (trace s') = published (trace demo_server)
           \<and> worlds s' = worlds demo_server)"
  using OpenWorld_parse_failure [of demo_env "''missing.world''" demo_server]
    OpenWorld_parse_failure [of "demo_env\<lparr>sdf_init := False\<rparr>" "''worlds/empty.world''"
      demo_server]
  by (simp add: demo_env_def)

lemmas physics_defs = worldModPub_Publish_def stop_worlds_def remove_worlds_def
  remove_sensors_def clear_buffers_def create_world_def load_world_def init_world_def
  run_world_def




lemma enqueue_controlMsgs:
  "controlMsgs (foldl (\<lambda>u m. OnControl m u) s ms) = controlMsgs s @ ms"
  by (induction ms arbitrary: s) (simp_all add: OnControl_def emit_def Let_def)

lemma control_loop_arrival_order:
  "control_loop env i s = in_arrival_order env (drop i (controlMsgs s)) s"
proof (induction env i s rule: control_loop.induct)
  case (1 env i s)
  show ?case
  proof (cases "i < length (controlMsgs s)")
    case False
    then show ?thesis by (simp add: control_loop.simps [of env i s])
  next
    case True
    then have d: "drop i (controlMsgs s) = controlMsgs s ! i # drop (Suc i) (controlMsgs s)"
      by (simp add: Cons_nth_drop_Suc)
    show ?thesis
    proof (cases "control_body env (controlMsgs s ! i) (emit QueueRead s)")
      case (Raised f t)
      with True d show ?thesis by (simp add: control_loop.simps [of env i s])
    next
      case (Ok t)
      from control_body_controlMsgs [OF Ok] have q: "controlMsgs t = controlMsgs s"
        by (simp add: emit_def)
      from "1.IH" [OF True Ok] have "control_loop env (Suc i) t
          = in_arrival_order env (drop (Suc i) (controlMsgs s)) t"
        by (simp add: q)
      with True d Ok show ?thesis by (simp add: control_loop.simps [of env i s])
    qed
  qed
qed

text \<open>
  C3, amended. After \<open>ms\<close> has been enqueued by \<open>OnControl\<close>, message by message, the
  queue holds what it held before followed by \<open>ms\<close>. If every command of the queue
  returns when they are run in arrival order, one call of \<open>ProcessControlMsgs\<close> runs
  exactly that, and leaves the queue empty.
\<close>

theorem ProcessControlMsgs_fifo:
  assumes "in_arrival_order env (controlMsgs s0 @ ms) (foldl (\<lambda>u m. OnControl m u) s0 ms) = Ok t"
  shows "ProcessControlMsgs env (foldl (\<lambda>u m. OnControl m u) s0 ms)
           = Ok (emit QueueClear (t\<lparr>controlMsgs := []\<rparr>))
         \<and> controlMsgs (emit QueueClear (t\<lparr>controlMsgs := []\<rparr>)) = []"
  using assms
  by (simp add: ProcessControlMsgs_def control_loop_arrival_order enqueue_controlMsgs emit_def)


theorem ProcessControlMsgs_fifo_witness:
  "in_arrival_order demo_env (controlMsgs demo_server @ [save_without_filename, new_world_msg])
     (foldl (\<lambda>u m. OnControl m u) demo_server [save_without_filename, new_world_msg])
     = Ok \<lparr>stop = False, controlMsgs = [save_without_filename, new_world_msg],
           worlds = [\<lparr>wid = 1, wname = ''default'', wmodels = [''ground_plane''],
                      wrunning = True\<rparr>],
           fresh = 2,
           trace =
             [MutexLock, QueuePush save_without_filename, MutexUnlock,
              MutexLock, QueuePush new_world_msg, MutexUnlock,
              QueueRead, Gzerr ''No filename specified.\<newline>'',
              QueueRead,
              Publish \<lparr>world_name = Some ''default'', remove = Some True, create = None\<rparr>,
              StopWorlds, RemoveWorlds, RemoveSensors, ClearBuffers,
              CreateWorld 1, LoadWorld 1, InitWorld 1, RunWorld 1,
              Publish \<lparr>world_name = Some ''default'', remove = Some False,
                       create = Some True\<rparr>]\<rparr>
   \<and> is_Ok (ProcessControlMsgs demo_env
        (foldl (\<lambda>u m. OnControl m u) demo_server [save_without_filename, new_world_msg]))
   \<and> controlMsgs (the_state (ProcessControlMsgs demo_env
        (foldl (\<lambda>u m. OnControl m u) demo_server [save_without_filename, new_world_msg]))) = []"
proof -
  have run: "in_arrival_order demo_env (controlMsgs demo_server @ [save_without_filename, new_world_msg])
     (foldl (\<lambda>u m. OnControl m u) demo_server [save_without_filename, new_world_msg])
     = Ok \<lparr>stop = False, controlMsgs = [save_without_filename, new_world_msg],
           worlds = [\<lparr>wid = 1, wname = ''default'', wmodels = [''ground_plane''],
                      wrunning = True\<rparr>],
           fresh = 2,
           trace =
             [MutexLock, QueuePush save_without_filename, MutexUnlock,
              MutexLock, QueuePush new_world_msg, MutexUnlock,
              QueueRead, Gzerr ''No filename specified.\<newline>'',
              QueueRead,
              Publish \<lparr>world_name = Some ''default'', remove = Some True, create = None\<rparr>,
              StopWorlds, RemoveWorlds, RemoveSensors, ClearBuffers,
              CreateWorld 1, LoadWorld 1, InitWorld 1, RunWorld 1,
              Publish \<lparr>world_name = Some ''default'', remove = Some False,
                       create = Some True\<rparr>]\<rparr>"
    by (simp add: demo_server_def demo_env_def empty_world_def save_without_filename_def
        new_world_msg_def OnControl_def control_body_def discard_value_def OpenWorld_def
        physics_defs gzerr_def emit_def get_world_def Let_def)
  from ProcessControlMsgs_fifo [OF run] run show ?thesis
    by simp
qed

text \<open>
  C3 as stated fails: the first command opens a source that parses and that
  \<open>physics::load_world\<close> rejects. The exception leaves \<open>ProcessControlMsgs\<close>: the second
  command is never run (one message is published, the removal of the first command) and
  the queue still holds both commands.
\<close>

theorem ProcessControlMsgs_fifo_counterexample:
  "\<not> is_Ok (ProcessControlMsgs demo_env
          (foldl (\<lambda>u m. OnControl m u) demo_server
             [open_msg ''worlds/rejected.world'', new_world_msg]))
   \<and> controlMsgs (the_state (ProcessControlMsgs demo_env
          (foldl (\<lambda>u m. OnControl m u) demo_server
             [open_msg ''worlds/rejected.world'', new_world_msg])))
       = [open_msg ''worlds/rejected.world'', new_world_msg]
   \<and> published (trace (the_state (ProcessControlMsgs demo_env
          (foldl (\<lambda>u m. OnControl m u) demo_server
             [open_msg ''worlds/rejected.world'', new_world_msg]))))
       = [\<lparr>world_name = Some ''default'', remove = Some True, create = None\<rparr>]"
  by (simp add: ProcessControlMsgs_def control_loop.simps demo_server_def demo_env_def
      rejected_world_def open_msg_def new_world_msg_def OnControl_def control_body_def
      discard_value_def OpenWorld_def physics_defs gzerr_def emit_def Let_def)

text \<open>
  C4. \<open>OnControl\<close> appends under the lock. \<open>ProcessControlMsgs\<close> does not take it: on a
  queue of one message (a save request without a file name) it reads the queue and
  clears it, and between the unlock of \<open>OnControl\<close> and the end of the call the mutex
  is never locked. So not every access to the queue is protected by the lock.
\<close>

theorem ProcessControlMsgs_takes_no_lock:
  "ProcessControlMsgs demo_env (OnControl save_without_filename demo_server)
     = Ok (demo_server\<lparr>trace :=
             [MutexLock, QueuePush save_without_filename, MutexUnlock,
              QueueRead, Gzerr ''No filename specified.\<newline>'', QueueClear]\<rparr>)
   \<and> guarded False (trace (OnControl save_without_filename demo_server))
   \<and> \<not> guarded False (trace (the_state
          (ProcessControlMsgs demo_env (OnControl save_without_filename demo_server))))"
  by (simp add: ProcessControlMsgs_def control_loop.simps demo_server_def
      save_without_filename_def OnControl_def control_body_def get_world_def gzerr_def
      emit_def Let_def)

text \<open>Every function of the server only appends to the events.\<close>

lemma OpenWorld_trace:
  "OpenWorld env f s = Ok (r, t) \<Longrightarrow> \<exists>es. trace t = trace s @ es"
  by (auto simp: OpenWorld_def gzerr_def emit_def physics_defs Let_def
      split: if_splits option.splits result.splits)

lemma control_body_trace:
  "control_body env m s = Ok t \<Longrightarrow> \<exists>es. trace t = trace s @ es"
  by (auto simp: control_body_def discard_value_def gzerr_def emit_def World_Save_def Let_def
      dest: OpenWorld_trace
      split: if_splits option.splits result.splits prod.splits)

lemma in_arrival_order_trace:
  "in_arrival_order env ms s = Ok t \<Longrightarrow> \<exists>es. trace t = trace s @ es"
proof (induction ms arbitrary: s)
  case Nil
  then show ?case by simp
next
  case (Cons m ms)
  from Cons.prems obtain u where
    body: "control_body env m (emit QueueRead s) = Ok u" and rest: "in_arrival_order env ms u = Ok t"
    by (auto split: result.splits)
  from control_body_trace [OF body] obtain es where "trace u = trace s @ QueueRead # es"
    by (auto simp: emit_def)
  moreover from Cons.IH [OF rest] obtain es' where "trace t = trace u @ es'"
    by blast
  ultimately show ?case by simp
qed

lemma ProcessControlMsgs_trace:
  "ProcessControlMsgs env s = Ok t \<Longrightarrow> \<exists>es. trace t = trace s @ es"
  by (auto simp: ProcessControlMsgs_def control_loop_arrival_order emit_def
      dest!: in_arrival_order_trace split: result.splits)

lemma enqueue_trace:
  "\<exists>es. trace (foldl (\<lambda>u m. OnControl m u) s ms) = trace s @ es"
proof (induction ms arbitrary: s)
  case Nil
  show ?case by simp
next
  case (Cons m ms)
  from Cons.IH [of "OnControl m s"] show ?case
    by (auto simp: OnControl_def emit_def Let_def)
qed

lemma Time_MSleep_trace:
  "\<exists>es. trace (Time_MSleep tk s) = trace s @ es"
  using enqueue_trace [of "emit MSleep s" "arrivals tk"]
  by (auto simp: Time_MSleep_def SigInt_def emit_def Let_def)

lemma steady_loop_trace:
  "steady_loop env ts s = Some (Ok t) \<Longrightarrow> \<exists>es. trace t = trace s @ es"
proof (induction ts arbitrary: s)
  case Nil
  then show ?case by (simp split: if_splits)
next
  case (Cons tk ts)
  show ?case
  proof (cases "stop s")
    case True
    with Cons.prems show ?thesis by simp
  next
    case False
    with Cons.prems obtain s1 where
      p: "ProcessControlMsgs env s = Ok s1"
      and r: "steady_loop env ts (Time_MSleep tk (sensors_run_once s1)) = Some (Ok t)"
      by (auto split: result.splits)
    from ProcessControlMsgs_trace [OF p] obtain e1 where "trace s1 = trace s @ e1"
      by blast
    moreover from Time_MSleep_trace [of tk "sensors_run_once s1"] obtain e2 where
      "trace (Time_MSleep tk (sensors_run_once s1)) = trace s1 @ SensorsRunOnce # e2"
      by (auto simp: sensors_run_once_def emit_def)
    moreover from Cons.IH [OF r] obtain e3 where
      "trace t = trace (Time_MSleep tk (sensors_run_once s1)) @ e3"
      by blast
    ultimately show ?thesis by simp
  qed
qed

lemma steady_loop_stop:
  "steady_loop env ts s = Some (Ok t) \<Longrightarrow> stop t"
  by (induction ts arbitrary: s) (auto split: if_splits result.splits)

lemma get_world_emit [simp]:
  "is_Ok (get_world env n (emit e s)) = is_Ok (get_world env n s)"
  by (simp add: get_world_def emit_def split: option.splits unknown_world.splits)






text \<open>
  The handle is not tested in \<open>Server.cc\<close>: if the lookup returns the null handle and
  the request has a file name, the null handle is dereferenced.
\<close>

lemma control_body_null_world:
  assumes "save_world_name m = Some n" and "save_filename m = Some f"
    and "get_world env n s = Ok None"
  shows "control_body env m s = Raised NullDereference s"
  using assms by (simp add: control_body_def)






text \<open>
  With a lookup that throws, a save request without a file name that names an unknown
  world ends in that exception: nothing is logged.
\<close>

lemma unknown_world_lookup_throws_first:
  "control_body demo_env (save_without_filename\<lparr>save_world_name := Some ''nowhere''\<rparr>)
     demo_server = Raised UncaughtException demo_server"
  by (simp add: control_body_def get_world_def save_without_filename_def demo_env_def
      demo_server_def)

text \<open>
  C8. A message that asks for a new world (no save request, \<open>new_world\<close> true) and a
  message that opens worlds/empty.world (no save request, \<open>new_world\<close> absent or false)
  are processed alike: both are the call \<open>OpenWorld("worlds/empty.world")\<close> with its
  value dropped, so from the same state they give the same state and the same
  notifications, or the same fault.
\<close>

theorem NewWorld_is_OpenWorld_empty:
  assumes "save_world_name m = None" and "new_world m = Some True"
    and "save_world_name m' = None" and "new_world m' \<noteq> Some True"
    and "open_filename m' = Some ''worlds/empty.world''"
  shows "control_body env m s = discard_value (OpenWorld env ''worlds/empty.world'' s)
         \<and> control_body env m' s = discard_value (OpenWorld env ''worlds/empty.world'' s)
         \<and> control_body env m s = control_body env m' s"
  using assms by (simp add: control_body_def)

theorem NewWorld_is_OpenWorld_empty_witness:
  "save_world_name new_world_msg = None \<and> new_world new_world_msg = Some True
   \<and> save_world_name (open_msg ''worlds/empty.world'') = None
   \<and> new_world (open_msg ''worlds/empty.world'') \<noteq> Some True
   \<and> open_filename (open_msg ''worlds/empty.world'') = Some ''worlds/empty.world''
   \<and> control_body demo_env new_world_msg demo_server
       = control_body demo_env (open_msg ''worlds/empty.world'') demo_server
   \<and> is_Ok (control_body demo_env new_world_msg demo_server)
   \<and> published (trace (the_state (control_body demo_env new_world_msg demo_server)))
       = [\<lparr>world_name = Some ''default'', remove = Some True, create = None\<rparr>,
          \<lparr>world_name = Some ''default'', remove = Some False, create = Some True\<rparr>]"
proof -
  have h: "save_world_name new_world_msg = None" "new_world new_world_msg = Some True"
    "save_world_name (open_msg ''worlds/empty.world'') = None"
    "new_world (open_msg ''worlds/empty.world'') \<noteq> Some True"
    "open_filename (open_msg ''worlds/empty.world'') = Some ''worlds/empty.world''"
    by (simp_all add: new_world_msg_def open_msg_def)
  have run: "control_body demo_env new_world_msg demo_server
      = Ok \<lparr>stop = False, controlMsgs = [],
           worlds = [\<lparr>wid = 1, wname = ''default'', wmodels = [''ground_plane''],
                      wrunning = True\<rparr>],
           fresh = 2,
           trace =
             [Publish \<lparr>world_name = Some ''default'', remove = Some True, create = None\<rparr>,
              StopWorlds, RemoveWorlds, RemoveSensors, ClearBuffers,
              CreateWorld 1, LoadWorld 1, InitWorld 1, RunWorld 1,
              Publish \<lparr>world_name = Some ''default'', remove = Some False,
                       create = Some True\<rparr>]\<rparr>"
    by (simp add: demo_server_def demo_env_def empty_world_def new_world_msg_def
        control_body_def discard_value_def OpenWorld_def physics_defs emit_def Let_def)
  from NewWorld_is_OpenWorld_empty [OF h, of demo_env demo_server]
  have eq: "control_body demo_env (open_msg ''worlds/empty.world'') demo_server
      = control_body demo_env new_world_msg demo_server"
    by simp
  show ?thesis
    by (simp add: h eq run)
qed

text \<open>
  C9. While the stop flag is true, \<open>Run\<close> returns at once and the state is the one it
  was called in: no event, no change. The flag is true in a new server, and false after
  \<open>Init\<close>.
\<close>

theorem Run_while_stopped:
  "(stop s \<longrightarrow> Run env ts s = Some (Ok s))
   \<and> stop Server_new
   \<and> Run env ts Server_new = Some (Ok Server_new)
   \<and> \<not> stop (Init s)"
  by (simp add: Run_def Server_new_def Init_def)

theorem Run_while_stopped_witness:
  "stop (Stop demo_server)
   \<and> Run demo_env [\<lparr>arrivals = [new_world_msg], sigint = False\<rparr>] (Stop demo_server)
       = Some (Ok (Stop demo_server))
   \<and> trace (Stop demo_server) = []"
  using Run_while_stopped [of "Stop demo_server" demo_env
      "[\<lparr>arrivals = [new_world_msg], sigint = False\<rparr>]"]
  by (simp add: Stop_def demo_server_def)

text \<open>
  C10. The body runs at most one action, by this precedence. With \<open>save_world_name\<close>
  present it runs the save action, and \<open>new_world\<close> and \<open>open_filename\<close> are ignored:
  the world is looked up; with a file name the world found is saved to it (a null handle
  is dereferenced), without one the error is logged; nothing is published and no world
  changes. Otherwise, with \<open>new_world\<close> present and true, it reloads worlds/empty.world
  and \<open>open_filename\<close> is ignored. Otherwise, with \<open>open_filename\<close> present, it reloads
  that file. Otherwise it does nothing.
\<close>

theorem control_body_precedence:
  "(save_world_name m = Some n \<longrightarrow>
      control_body env m s = control_body env (m\<lparr>new_world := None, open_filename := None\<rparr>) s
      \<and> published (trace (the_state (control_body env m s))) = published (trace s)
      \<and> worlds (the_state (control_body env m s)) = worlds s
      \<and> (\<forall>fl t. get_world env n s = Raised fl t \<longrightarrow> control_body env m s = Raised fl t)
      \<and> (\<forall>w. get_world env n s = Ok (Some w) \<and> save_filename m = Some f \<longrightarrow>
            control_body env m s = Ok (emit (SaveWorld (wid w) f) s))
      \<and> (get_world env n s = Ok None \<and> save_filename m = Some f \<longrightarrow>
            control_body env m s = Raised NullDereference s)
      \<and> (is_Ok (get_world env n s) \<and> save_filename m = None \<longrightarrow>
            control_body env m s = Ok (emit (Gzerr ''No filename specified.\<newline>'') s)))
   \<and> (save_world_name m = None \<and> new_world m = Some True \<longrightarrow>
      control_body env m s = discard_value (OpenWorld env ''worlds/empty.world'' s)
      \<and> control_body env m s = control_body env (m\<lparr>open_filename := None\<rparr>) s)
   \<and> (save_world_name m = None \<and> new_world m \<noteq> Some True \<and> open_filename m = Some f \<longrightarrow>
      control_body env m s = discard_value (OpenWorld env f s))
   \<and> (save_world_name m = None \<and> new_world m \<noteq> Some True \<and> open_filename m = None \<longrightarrow>
      control_body env m s = Ok s)"
  by (auto simp: control_body_def get_world_def gzerr_def emit_def World_Save_def
        published_append
      split: option.splits unknown_world.splits)

theorem control_body_precedence_witness:
  "save_world_name all_fields_msg = Some ''default''
   \<and> save_filename all_fields_msg = Some ''/tmp/out.world''
   \<and> get_world demo_env ''default'' demo_server
       = Ok (Some \<lparr>wid = 0, wname = ''default'', wmodels = [''box''], wrunning = True\<rparr>)
   \<and> control_body demo_env all_fields_msg demo_server
       = control_body demo_env (all_fields_msg\<lparr>new_world := None, open_filename := None\<rparr>)
           demo_server
   \<and> control_body demo_env all_fields_msg demo_server
       = Ok (demo_server\<lparr>trace := [SaveWorld 0 ''/tmp/out.world'']\<rparr>)
   \<and> save_world_name (all_fields_msg\<lparr>save_filename := None\<rparr>) = Some ''default''
   \<and> save_filename (all_fields_msg\<lparr>save_filename := None\<rparr>) = None
   \<and> control_body demo_env (all_fields_msg\<lparr>save_filename := None\<rparr>) demo_server
       = Ok (demo_server\<lparr>trace := [Gzerr ''No filename specified.\<newline>'']\<rparr>)
   \<and> save_world_name (all_fields_msg\<lparr>save_world_name := None\<rparr>) = None
   \<and> new_world (all_fields_msg\<lparr>save_world_name := None\<rparr>) = Some True
   \<and> control_body demo_env (all_fields_msg\<lparr>save_world_name := None\<rparr>) demo_server
       = discard_value (OpenWorld demo_env ''worlds/empty.world'' demo_server)
   \<and> save_world_name (open_msg ''worlds/other.world'') = None
   \<and> new_world (open_msg ''worlds/other.world'') \<noteq> Some True
   \<and> open_filename (open_msg ''worlds/other.world'') = Some ''worlds/other.world''
   \<and> control_body demo_env (open_msg ''worlds/other.world'') demo_server
       = discard_value (OpenWorld demo_env ''worlds/other.world'' demo_server)
   \<and> save_world_name empty_msg = None \<and> new_world empty_msg \<noteq> Some True
   \<and> open_filename empty_msg = None
   \<and> control_body demo_env empty_msg demo_server = Ok demo_server"
proof -
  let ?nf = "all_fields_msg\<lparr>save_filename := None\<rparr>"
  let ?nw = "all_fields_msg\<lparr>save_world_name := None\<rparr>"
  have sn: "save_world_name all_fields_msg = Some ''default''"
    and sf: "save_filename all_fields_msg = Some ''/tmp/out.world''"
    and nfn: "save_world_name ?nf = Some ''default''"
    and nff: "save_filename ?nf = None"
    and nwn: "save_world_name ?nw = None"
    and nww: "new_world ?nw = Some True"
    by (simp_all add: all_fields_msg_def)
  have on: "save_world_name (open_msg ''worlds/other.world'') = None"
    and ow: "new_world (open_msg ''worlds/other.world'') \<noteq> Some True"
    and "of": "open_filename (open_msg ''worlds/other.world'') = Some ''worlds/other.world''"
    by (simp_all add: open_msg_def)
  have en: "save_world_name empty_msg = None"
    and ew: "new_world empty_msg \<noteq> Some True"
    and ef: "open_filename empty_msg = None"
    by (simp_all add: empty_msg_def)
  have gw: "get_world demo_env ''default'' demo_server
       = Ok (Some \<lparr>wid = 0, wname = ''default'', wmodels = [''box''], wrunning = True\<rparr>)"
    by (simp add: get_world_def demo_server_def)
  then have lk: "is_Ok (get_world demo_env ''default'' demo_server)"
    by simp
  note save = control_body_precedence
    [of all_fields_msg "''default''" demo_env demo_server "''/tmp/out.world''",
      THEN conjunct1, THEN mp, OF sn]
  note ignored = save [THEN conjunct1]
  note saved = save [THEN conjunct2, THEN conjunct2, THEN conjunct2, THEN conjunct2,
      THEN conjunct1, rule_format, OF conjI [OF gw sf]]
  note logged = control_body_precedence
    [of ?nf "''default''" demo_env demo_server "''/tmp/out.world''",
      THEN conjunct1, THEN mp, OF nfn, THEN conjunct2, THEN conjunct2, THEN conjunct2,
      THEN conjunct2, THEN conjunct2, THEN conjunct2, THEN mp, OF conjI [OF lk nff]]
  note fresh_world = control_body_precedence
    [of ?nw "''default''" demo_env demo_server "''/tmp/out.world''",
      THEN conjunct2, THEN conjunct1, THEN mp, OF conjI [OF nwn nww], THEN conjunct1]
  note opened = control_body_precedence
    [of "open_msg ''worlds/other.world''" "''default''" demo_env demo_server
      "''worlds/other.world''",
      THEN conjunct2, THEN conjunct2, THEN conjunct1, THEN mp,
      OF conjI [OF on conjI [OF ow "of"]]]
  note no_action = control_body_precedence
    [of empty_msg "''default''" demo_env demo_server "''/tmp/out.world''",
      THEN conjunct2, THEN conjunct2, THEN conjunct2, THEN mp,
      OF conjI [OF en conjI [OF ew ef]]]
  have saved': "control_body demo_env all_fields_msg demo_server
       = Ok (demo_server\<lparr>trace := [SaveWorld 0 ''/tmp/out.world'']\<rparr>)"
    using saved by (simp add: emit_def demo_server_def)
  have logged': "control_body demo_env ?nf demo_server
       = Ok (demo_server\<lparr>trace := [Gzerr ''No filename specified.\<newline>'']\<rparr>)"
    using logged by (simp add: emit_def demo_server_def)
  from sn sf gw ignored saved' nfn nff logged' nwn nww fresh_world on ow "of" opened
    en ew ef no_action
  show ?thesis
    by (intro conjI) assumption+
qed

text \<open>
  C7. When \<open>Run\<close> starts with the stop flag false and returns, the loop has seen the
  flag set, and the events of the call are: \<open>sensors::run_once\<close>, then
  \<open>physics::run_worlds\<close>, then the rounds of the loop, then \<open>physics::stop_worlds\<close>,
  \<open>sensors::stop\<close>, \<open>gazebo::stop\<close> and \<open>Master::Stop\<close>, in this order and last.
  \<open>Init\<close> initialises in the reverse order: gazebo, sensors, worlds.
\<close>

theorem Run_order:
  assumes "\<not> stop s" and "Run env ts s = Some (Ok t)"
  shows "stop t
         \<and> (\<exists>mid. trace t = trace s @ [SensorsRunOnce, RunWorlds] @ mid
                    @ [StopWorlds, SensorsStop, GazeboStop, MasterStop])
         \<and> trace (Init s) = trace s @ [GazeboInit, SensorsInit, InitWorlds]"
proof -
  let ?s2 = "run_worlds (sensors_run_once s)"
  from assms obtain s3 where
    l: "steady_loop env ts ?s2 = Some (Ok s3)"
    and t: "t = master_Stop (gazebo_stop (sensors_stop (stop_worlds s3)))"
    by (auto simp: Run_def Let_def split: option.splits result.splits)
  from steady_loop_trace [OF l] obtain mid where "trace s3 = trace ?s2 @ mid"
    by blast
  then have "trace s3 = trace s @ [SensorsRunOnce, RunWorlds] @ mid"
    by (simp add: run_worlds_def sensors_run_once_def emit_def)
  with t have "trace t = trace s @ [SensorsRunOnce, RunWorlds] @ mid
                    @ [StopWorlds, SensorsStop, GazeboStop, MasterStop]"
    by (simp add: master_Stop_def gazebo_stop_def sensors_stop_def stop_worlds_def emit_def)
  moreover from steady_loop_stop [OF l] t have "stop t"
    by (simp add: master_Stop_def gazebo_stop_def sensors_stop_def stop_worlds_def emit_def)
  moreover have "trace (Init s) = trace s @ [GazeboInit, SensorsInit, InitWorlds]"
    by (simp add: Init_def emit_def)
  ultimately show ?thesis by blast
qed


text \<open>
  \<open>Run\<close> does return: with nothing queued, a signal during the first sleep ends the
  loop at the next test of the flag.
\<close>

lemma steady_loop_stopped: "stop s \<Longrightarrow> steady_loop env ts s = Some (Ok s)"
  by (cases ts) simp_all

lemma ProcessControlMsgs_empty:
  "controlMsgs s = [] \<Longrightarrow> ProcessControlMsgs env s = Ok (emit QueueClear s)"
  by (simp add: ProcessControlMsgs_def control_loop.simps [of env 0 s] emit_def)

lemma Run_returns_on_sigint:
  assumes "\<not> stop s" and "controlMsgs s = []"
  shows "\<exists>t. Run env (\<lparr>arrivals = a, sigint = True\<rparr> # ts) s = Some (Ok t)"
proof -
  let ?s2 = "run_worlds (sensors_run_once s)"
  have q: "controlMsgs ?s2 = []" and ns: "\<not> stop ?s2"
    using assms by (simp_all add: run_worlds_def sensors_run_once_def emit_def)
  let ?s3 = "Time_MSleep \<lparr>arrivals = a, sigint = True\<rparr> (sensors_run_once (emit QueueClear ?s2))"
  have "stop ?s3"
    by (simp add: Time_MSleep_def SigInt_def Let_def)
  then have "steady_loop env ts ?s3 = Some (Ok ?s3)"
    by (rule steady_loop_stopped)
  with ns ProcessControlMsgs_empty [OF q, of env]
  have "steady_loop env (\<lparr>arrivals = a, sigint = True\<rparr> # ts) ?s2 = Some (Ok ?s3)"
    by simp
  with assms(1) show ?thesis
    by (simp add: Run_def Let_def)
qed

theorem Run_order_witness:
  "\<not> stop demo_server
   \<and> Run demo_env [\<lparr>arrivals = [save_without_filename], sigint = False\<rparr>,
                     \<lparr>arrivals = [], sigint = True\<rparr>] demo_server
      = Some (Ok \<lparr>stop = True, controlMsgs = [],
           worlds = [\<lparr>wid = 0, wname = ''default'', wmodels = [''box''], wrunning = False\<rparr>],
           fresh = 1,
           trace =
             [SensorsRunOnce, RunWorlds,
              QueueClear, SensorsRunOnce, MSleep,
              MutexLock, QueuePush save_without_filename, MutexUnlock,
              QueueRead, Gzerr ''No filename specified.\<newline>'', QueueClear,
              SensorsRunOnce, MSleep,
              StopWorlds, SensorsStop, GazeboStop, MasterStop]\<rparr>)
   \<and> (\<exists>mid. [SensorsRunOnce, RunWorlds,
              QueueClear, SensorsRunOnce, MSleep,
              MutexLock, QueuePush save_without_filename, MutexUnlock,
              QueueRead, Gzerr ''No filename specified.\<newline>'', QueueClear,
              SensorsRunOnce, MSleep,
              StopWorlds, SensorsStop, GazeboStop, MasterStop]
           = [SensorsRunOnce, RunWorlds] @ mid
               @ [StopWorlds, SensorsStop, GazeboStop, MasterStop])"
proof -
  have h1: "\<not> stop demo_server"
    by (simp add: demo_server_def)
  have h2: "Run demo_env [\<lparr>arrivals = [save_without_filename], sigint = False\<rparr>,
                     \<lparr>arrivals = [], sigint = True\<rparr>] demo_server
      = Some (Ok \<lparr>stop = True, controlMsgs = [],
           worlds = [\<lparr>wid = 0, wname = ''default'', wmodels = [''box''], wrunning = False\<rparr>],
           fresh = 1,
           trace =
             [SensorsRunOnce, RunWorlds,
              QueueClear, SensorsRunOnce, MSleep,
              MutexLock, QueuePush save_without_filename, MutexUnlock,
              QueueRead, Gzerr ''No filename specified.\<newline>'', QueueClear,
              SensorsRunOnce, MSleep,
              StopWorlds, SensorsStop, GazeboStop, MasterStop]\<rparr>)"
    by (simp add: Run_def ProcessControlMsgs_def control_loop.simps Time_MSleep_def SigInt_def
        OnControl_def control_body_def get_world_def save_without_filename_def
        demo_server_def sensors_run_once_def run_worlds_def stop_worlds_def sensors_stop_def
        gazebo_stop_def master_Stop_def gzerr_def emit_def Let_def)
  from Run_order [OF h1 h2] h1 h2 show ?thesis
    by (simp add: demo_server_def)
qed

end
